theory Spec2Isabelle
  imports Main
begin

section \<open>JavaScript strings and numbers\<close>

text \<open>
  Strings are lists of characters with code points below 256. The helpers below follow
  the ECMAScript definitions of the string methods the lifecycle code calls, restricted
  to that range.
\<close>

definition quote :: string where
  "quote = [CHR 0x22]"

definition is_space :: "char \<Rightarrow> bool" where
  "is_space c = (c \<in> set [CHR 0x09, CHR 0x0A, CHR 0x0B, CHR 0x0C, CHR 0x0D, CHR 0x20, CHR 0xA0])"

definition is_digit :: "char \<Rightarrow> bool" where
  "is_digit c = (c \<in> set ''0123456789'')"

definition trim :: "string \<Rightarrow> string" where
  "trim s = rev (dropWhile is_space (rev (dropWhile is_space s)))"

text \<open>
  \<open>toLowerCase\<close> below code point 256: the letters A to Z, and the Latin-1 capitals
  0xC0 to 0xDE without the multiplication sign 0xD7, move up by 32.
\<close>

definition upper_letters :: string where
  "upper_letters = ''ABCDEFGHIJKLMNOPQRSTUVWXYZ'' @
     [CHR 0xC0, CHR 0xC1, CHR 0xC2, CHR 0xC3, CHR 0xC4, CHR 0xC5, CHR 0xC6, CHR 0xC7,
      CHR 0xC8, CHR 0xC9, CHR 0xCA, CHR 0xCB, CHR 0xCC, CHR 0xCD, CHR 0xCE, CHR 0xCF,
      CHR 0xD0, CHR 0xD1, CHR 0xD2, CHR 0xD3, CHR 0xD4, CHR 0xD5, CHR 0xD6,
      CHR 0xD8, CHR 0xD9, CHR 0xDA, CHR 0xDB, CHR 0xDC, CHR 0xDD, CHR 0xDE]"

definition lower_letters :: string where
  "lower_letters = ''abcdefghijklmnopqrstuvwxyz'' @
     [CHR 0xE0, CHR 0xE1, CHR 0xE2, CHR 0xE3, CHR 0xE4, CHR 0xE5, CHR 0xE6, CHR 0xE7,
      CHR 0xE8, CHR 0xE9, CHR 0xEA, CHR 0xEB, CHR 0xEC, CHR 0xED, CHR 0xEE, CHR 0xEF,
      CHR 0xF0, CHR 0xF1, CHR 0xF2, CHR 0xF3, CHR 0xF4, CHR 0xF5, CHR 0xF6,
      CHR 0xF8, CHR 0xF9, CHR 0xFA, CHR 0xFB, CHR 0xFC, CHR 0xFD, CHR 0xFE]"

definition lower_char :: "char \<Rightarrow> char" where
  "lower_char c =
     (case map_of (zip upper_letters lower_letters) c of Some l \<Rightarrow> l | None \<Rightarrow> c)"

definition toLowerCase :: "string \<Rightarrow> string" where
  "toLowerCase s = map lower_char s"

definition startsWith :: "string \<Rightarrow> string \<Rightarrow> bool" where
  "startsWith s p = (take (length p) s = p)"

fun includes_str :: "string \<Rightarrow> string \<Rightarrow> bool" where
  "includes_str [] p = (p = [])"
| "includes_str (c # s) p = (startsWith (c # s) p \<or> includes_str s p)"

fun split_on :: "char \<Rightarrow> string \<Rightarrow> string list" where
  "split_on d [] = [[]]"
| "split_on d (c # s) =
     (if c = d then [] # split_on d s
      else (case split_on d s of [] \<Rightarrow> [[c]] | w # ws \<Rightarrow> (c # w) # ws))"

text \<open>A JavaScript number as the lifecycle code meets it: an integer or \<open>NaN\<close>.\<close>

datatype number = NaN | Num int

definition isNaN :: "number \<Rightarrow> bool" where
  "isNaN n = (n = NaN)"

definition digit_val :: "char \<Rightarrow> nat" where
  "digit_val c = (case map_of (zip ''0123456789'' [0, 1, 2, 3, 4, 5, 6, 7, 8, 9]) c of
                    Some v \<Rightarrow> v | None \<Rightarrow> 0)"

definition digits_val :: "string \<Rightarrow> nat" where
  "digits_val ds = foldl (\<lambda>a c. 10 * a + digit_val c) 0 ds"

text \<open>\<open>parseInt(s, 10)\<close>: leading white space, an optional sign, the longest run of digits.\<close>

definition parseInt :: "string \<Rightarrow> number" where
  "parseInt s =
     (let t = dropWhile is_space s;
          neg = (case t of [] \<Rightarrow> False | c # _ \<Rightarrow> c = CHR ''-'');
          u = (case t of [] \<Rightarrow> [] | c # r \<Rightarrow> if c = CHR ''-'' \<or> c = CHR ''+'' then r else t);
          ds = takeWhile is_digit u
      in if ds = [] then NaN
         else Num (if neg then - int (digits_val ds) else int (digits_val ds)))"

fun show_nat :: "nat \<Rightarrow> string" where
  "show_nat n =
     (if n < 10 then [''0123456789'' ! n]
      else show_nat (n div 10) @ [''0123456789'' ! (n mod 10)])"

definition show_int :: "int \<Rightarrow> string" where
  "show_int i = (if i < 0 then CHR ''-'' # show_nat (nat (- i)) else show_nat (nat i))"

definition show_number :: "number \<Rightarrow> string" where
  "show_number n = (case n of NaN \<Rightarrow> ''NaN'' | Num i \<Rightarrow> show_int i)"

fun join :: "string \<Rightarrow> string list \<Rightarrow> string" where
  "join sep [] = []"
| "join sep [x] = x"
| "join sep (x # y # ys) = x @ sep @ join sep (y # ys)"

text \<open>
  \<open>line.match(/"\d+"/)\<close>: the leftmost double quote followed by one or more digits and a
  double quote; the result is the matched text, quotes included.
\<close>

definition match_at :: "string \<Rightarrow> string option" where
  "match_at s =
     (case s of
        [] \<Rightarrow> None
      | c # r \<Rightarrow>
          if c = CHR 0x22 \<and> takeWhile is_digit r \<noteq> []
             \<and> (case dropWhile is_digit r of [] \<Rightarrow> False | e # _ \<Rightarrow> e = CHR 0x22)
          then Some (quote @ takeWhile is_digit r @ quote)
          else None)"

fun match_quoted_digits :: "string \<Rightarrow> string option" where
  "match_quoted_digits [] = None"
| "match_quoted_digits (c # s) =
     (case match_at (c # s) of Some m \<Rightarrow> Some m | None \<Rightarrow> match_quoted_digits s)"

definition strip_quotes :: "string \<Rightarrow> string" where
  "strip_quotes s = filter (\<lambda>c. c \<noteq> CHR 0x22) s"

section \<open>Effects, exceptions and the host process\<close>

datatype platform = Win32 | Posix

datatype stdio = Inherit | Pipe

datatype signal = Sig0 | SigTerm

text \<open>
  What a \<open>throw\<close> carries: an \<open>Error\<close> object with its message, or the bare exit
  status that \<open>executeCommand\<close> throws (\<open>null\<close> is \<open>None\<close>).
\<close>

datatype thrown = ErrorObj string | ThrownStatus "int option"

definition show_status :: "int option \<Rightarrow> string" where
  "show_status c = (case c of None \<Rightarrow> ''null'' | Some n \<Rightarrow> show_int n)"

definition show_thrown :: "thrown \<Rightarrow> string" where
  "show_thrown e =
     (case e of ErrorObj m \<Rightarrow> ''Error: '' @ m | ThrownStatus c \<Rightarrow> show_status c)"

record spawn_result =
  error :: "thrown option"
  status :: "int option"
  stdout :: "string option"

text \<open>
  The events of the spawned child: a chunk on stdout, a chunk on stderr, the \<open>error\<close>
  event with the error's message, the \<open>exit\<close> event with its code (\<open>null\<close> is
  \<open>None\<close>).
\<close>

datatype child_event =
  Stdout string | Stderr string | ErrorEvent string | ExitEvent "int option"

datatype auth_result = AuthThrows thrown | AuthStore bool bool

text \<open>
  The operating system and the other collaborators outside the lifecycle code, as the
  code sees them during one call: the platform tag, the answer of \<open>spawnSync\<close> to a
  command line, whether \<open>process.kill\<close> throws, the logger's \<open>highlight\<close>, the
  child that \<open>spawn\<close> starts (its pid and the events it emits), the environment
  variables and the outcome of the superuser login. One value of this record is the
  state of the host while one call runs; successive calls may meet different states.
  The logger (\<open>utils/logging\<close>) only prints: its calls return and are recorded as
  effects.
\<close>

record world =
  platform :: platform
  spawnSync :: "string \<Rightarrow> stdio \<Rightarrow> spawn_result"
  process_kill :: "number \<Rightarrow> signal \<Rightarrow> thrown option"
  highlight :: "string \<Rightarrow> string"
  child_pid :: number
  child_events :: "child_event list"
  getenv :: "string \<Rightarrow> string option"
  auth :: auth_result

text \<open>
  Every action of the code on the outside world, in the order it happens, and every call
  of the launch promise's \<open>resolve\<close> and \<open>reject\<close>.
\<close>

datatype effect =
    LogDebug string
  | LogActionable string string
  | SpawnSync string stdio
  | Kill number signal
  | SpawnChild
  | Resolve number
  | Reject thrown
  | AuthWithPassword string string

text \<open>
  How a call ends: it returns, it throws, \<open>process.exit\<close> ends the host process, or an
  awaited promise never settles.
\<close>

datatype 'a outcome = Return 'a | Throw thrown | Exit nat | Hang

type_synonym 'a io = "'a outcome \<times> effect list"

definition io_return :: "'a \<Rightarrow> 'a io" where
  "io_return x = (Return x, [])"

definition io_throw :: "thrown \<Rightarrow> 'a io" where
  "io_throw e = (Throw e, [])"

definition io_exit :: "nat \<Rightarrow> 'a io" where
  "io_exit c = (Exit c, [])"

definition emit :: "effect \<Rightarrow> unit io" where
  "emit e = (Return (), [e])"

definition io_bind :: "'a io \<Rightarrow> ('a \<Rightarrow> 'b io) \<Rightarrow> 'b io" where
  "io_bind m f =
     (case fst m of
        Return x \<Rightarrow> (fst (f x), snd m @ snd (f x))
      | Throw e \<Rightarrow> (Throw e, snd m)
      | Exit c \<Rightarrow> (Exit c, snd m)
      | Hang \<Rightarrow> (Hang, snd m))"

text \<open>\<open>try { m } catch (e) { h e }\<close>: only a throw reaches the handler.\<close>

definition io_try :: "'a io \<Rightarrow> (thrown \<Rightarrow> 'a io) \<Rightarrow> 'a io" where
  "io_try m h =
     (case fst m of
        Throw e \<Rightarrow> (fst (h e), snd m @ snd (h e))
      | _ \<Rightarrow> m)"

definition kill :: "world \<Rightarrow> number \<Rightarrow> signal \<Rightarrow> unit io" where
  "kill w pid sig =
     io_bind (emit (Kill pid sig))
       (\<lambda>_. case process_kill w pid sig of None \<Rightarrow> io_return () | Some e \<Rightarrow> io_throw e)"

section \<open>executeCommand (utils/commands.ts)\<close>

record options =
  exitOnError :: "bool option"
  stdio :: "stdio option"

definition effective_stdio :: "options \<Rightarrow> stdio" where
  "effective_stdio opts = (case stdio opts of None \<Rightarrow> Inherit | Some s \<Rightarrow> s)"

text \<open>
  The command is always a string at the call sites modelled here, so the first
  \<open>try\<close> of the source (a command given as a function) cannot fail. With
  \<open>shell: true\<close> the split command line is joined again, so \<open>spawnSync\<close> runs
  \<open>cmd\<close> as it is; no call site passes extra arguments. An \<open>exitOnError\<close> that
  is absent (\<open>None\<close>) is falsy, so the error is thrown again.
\<close>

definition executeCommand :: "world \<Rightarrow> string \<Rightarrow> options \<Rightarrow> string io" where
  "executeCommand w cmd opts =
     io_try
       (io_bind (emit (LogDebug (''Executing: '' @ cmd))) (\<lambda>_.
        io_bind (emit (SpawnSync cmd (effective_stdio opts))) (\<lambda>_.
          let result = spawnSync w cmd (effective_stdio opts) in
          case error result of
            Some e \<Rightarrow> io_throw e
          | None \<Rightarrow>
              if status result \<noteq> Some 0 then io_throw (ThrownStatus (status result))
              else
                io_bind
                  (if stdio opts = None \<or> stdio opts = Some Inherit
                   then emit (LogDebug (''Completed: '' @ cmd)) else io_return ())
                  (\<lambda>_. io_return (case stdout result of None \<Rightarrow> [] | Some out \<Rightarrow> trim out)))))
       (\<lambda>err.
          if exitOnError opts \<noteq> Some True then io_throw err
          else
            io_bind (emit (LogActionable (''Command execution failed: '' @ cmd)
                       ''Check if the command exists and you have the necessary permissions'')) (\<lambda>_.
            io_bind (emit (LogDebug (''Error details: '' @ show_thrown err))) (\<lambda>_.
              io_exit 1)))"

section \<open>Identity Verifier\<close>

definition pipe_no_exit :: options where
  "pipe_no_exit = \<lparr>exitOnError = Some False, stdio = Some Pipe\<rparr>"

definition tasklist_pid_cmd :: "number \<Rightarrow> string" where
  "tasklist_pid_cmd pid = ''tasklist /fi '' @ quote @ ''pid eq '' @ show_number pid @ quote @ '' /fo csv /nh''"

definition ps_cmd :: "number \<Rightarrow> string" where
  "ps_cmd pid = ''ps -p '' @ show_number pid @ '' -o comm=''"

definition isValidPocketbaseProcess :: "world \<Rightarrow> number \<Rightarrow> bool io" where
  "isValidPocketbaseProcess w pid =
     io_try
       (io_bind (kill w pid Sig0) (\<lambda>_.
          if platform w = Win32 then
            io_bind (executeCommand w (tasklist_pid_cmd pid) pipe_no_exit)
              (\<lambda>taskResult. io_return (includes_str (toLowerCase taskResult) ''pocketbase.exe''))
          else
            io_bind (executeCommand w (ps_cmd pid) pipe_no_exit)
              (\<lambda>psResult. io_return (includes_str (toLowerCase psResult) ''pocketbase''))))
       (\<lambda>_. io_return False)"

section \<open>Existence Probe\<close>

definition newline :: char where
  "newline = CHR 0x0A"

definition tasklist_image_cmd :: "string \<Rightarrow> string" where
  "tasklist_image_cmd nm =
     ''tasklist /fi '' @ quote @ ''imagename eq '' @ nm @ ''.exe'' @ quote @ '' /fo csv /nh''"

definition pgrep_cmd :: "string \<Rightarrow> string" where
  "pgrep_cmd pat = ''pgrep -f '' @ quote @ pat @ quote"

text \<open>The pids read from the CSV lines of \<open>tasklist\<close>.\<close>

definition win_pids :: "string \<Rightarrow> number list" where
  "win_pids taskResult =
     filter (\<lambda>pid. \<not> isNaN pid)
       (map (\<lambda>line. case match_quoted_digits line of
                       Some m \<Rightarrow> parseInt (strip_quotes m)
                     | None \<Rightarrow> NaN)
          (split_on newline taskResult))"

text \<open>The pids read from the lines of \<open>pgrep\<close>.\<close>

definition posix_pids :: "string \<Rightarrow> number list" where
  "posix_pids result =
     filter (\<lambda>pid. \<not> isNaN pid)
       (map (\<lambda>pid. parseInt (trim pid)) (split_on newline (trim result)))"

text \<open>\<open>xs.filter(p)\<close> for a callback with effects: one call per element, in order.\<close>

fun filter_io :: "('a \<Rightarrow> bool io) \<Rightarrow> 'a list \<Rightarrow> 'a list io" where
  "filter_io p [] = io_return []"
| "filter_io p (x # xs) =
     io_bind (p x) (\<lambda>b.
     io_bind (filter_io p xs) (\<lambda>ys.
       io_return (if b then x # ys else ys)))"

definition already_running_exit :: "bool \<Rightarrow> number list \<Rightarrow> string \<Rightarrow> unit io" where
  "already_running_exit exitOnErr pids hint =
     (if exitOnErr then
        io_bind (emit (LogActionable
                   (''PocketBase is already running (PID: '' @ join '', '' (map show_number pids) @ '')'')
                   hint))
          (\<lambda>_. io_exit 1)
      else io_return ())"

text \<open>
  Inside the \<open>try\<close> a \<open>return\<close> is \<open>Some\<close> of the value; \<open>None\<close> falls through to
  the \<open>return false\<close> after the \<open>catch\<close>.
\<close>

definition checkRunningPBInstances :: "world \<Rightarrow> bool \<Rightarrow> bool io" where
  "checkRunningPBInstances w exitOnErr =
     io_bind
       (io_try
          (if platform w = Win32 then
             io_bind (executeCommand w (tasklist_image_cmd ''pocketbase'') pipe_no_exit) (\<lambda>taskResult.
               if trim taskResult = [] \<or> includes_str taskResult ''No tasks are running''
               then io_return (Some False)
               else
                 let pids = win_pids taskResult in
                 if length pids > 0 then
                   io_bind (already_running_exit exitOnErr pids
                              ''Stop the existing instance before proceeding'')
                     (\<lambda>_. io_return (Some True))
                 else io_return (Some False))
           else
             io_bind (executeCommand w (pgrep_cmd ''pocketbase serve'') pipe_no_exit) (\<lambda>result.
               if trim result = [] then io_return (Some False)
               else
                 let pids = posix_pids result in
                 io_bind (filter_io (isValidPocketbaseProcess w) pids) (\<lambda>validPids.
                   if length validPids > 0 then
                     io_bind (already_running_exit exitOnErr validPids
                                (''Stop the existing instance with '' @ quote @ ''pkill -f pocketbase''
                                 @ quote @ '' before proceeding''))
                       (\<lambda>_. io_return (Some True))
                   else io_return None)))
          (\<lambda>_. io_return None))
       (\<lambda>r. case r of Some b \<Rightarrow> io_return b | None \<Rightarrow> io_return False)"

section \<open>Launcher\<close>

datatype promise = Pending | Fulfilled number | Rejected thrown

text \<open>A promise settles once: the first call of \<open>resolve\<close> or \<open>reject\<close> decides it.\<close>

fun promise_of :: "effect list \<Rightarrow> promise" where
  "promise_of [] = Pending"
| "promise_of (Resolve v # es) = Fulfilled v"
| "promise_of (Reject e # es) = Rejected e"
| "promise_of (_ # es) = promise_of es"

definition on_stdout :: "world \<Rightarrow> string \<Rightarrow> unit io" where
  "on_stdout w output =
     (if startsWith output ''Error:'' then emit (Reject (ErrorObj (trim output)))
      else
        io_bind
          (if includes_str output ''Server started'' then
             io_bind (emit (LogDebug (''PocketBase server started (PID: ''
                                       @ show_number (child_pid w) @ '')'')))
               (\<lambda>_. emit (Resolve (child_pid w)))
           else io_return ())
          (\<lambda>_.
             if includes_str output ''bind: address already in use'' then
               io_bind (emit (LogActionable ''Port 8090 is already in use''
                          (''Run '' @ quote @ ''pkill -f pocketbase'' @ quote
                           @ '' to stop existing instances, or check for other apps using port 8090'')))
                 (\<lambda>_. io_exit 1)
             else io_return ()))"

definition on_stderr :: "string \<Rightarrow> unit io" where
  "on_stderr d =
     io_bind (emit (LogDebug (''PocketBase stderr: '' @ trim d)))
       (\<lambda>_. emit (Reject (ErrorObj (trim d))))"

definition on_error :: "string \<Rightarrow> unit io" where
  "on_error msg =
     io_bind (emit (LogDebug (''PocketBase spawn error: '' @ msg)))
       (\<lambda>_. emit (Reject (ErrorObj msg)))"

definition on_exit :: "int option \<Rightarrow> unit io" where
  "on_exit code =
     (if code \<noteq> Some 0 then
        io_bind (emit (LogDebug (''PocketBase exited with code '' @ show_status code)))
          (\<lambda>_. emit (Reject (ErrorObj (''PocketBase process exited with code '' @ show_status code))))
      else io_return ())"

fun handle :: "world \<Rightarrow> child_event \<Rightarrow> unit io" where
  "handle w (Stdout d) = on_stdout w d"
| "handle w (Stderr d) = on_stderr d"
| "handle w (ErrorEvent msg) = on_error msg"
| "handle w (ExitEvent code) = on_exit code"

text \<open>
  Awaiting the launch promise: the handlers run one event at a time; when a handler has
  ended the host process nothing follows; otherwise, once the promise is settled, the
  awaiting caller resumes with its value or its error, and the events that the child
  emits later are not part of the awaited call. A child whose events run out with the
  promise still pending leaves the caller suspended.
\<close>

fun await_launch :: "world \<Rightarrow> child_event list \<Rightarrow> number io" where
  "await_launch w [] = (Hang, [])"
| "await_launch w (ev # evs) =
     (case fst (handle w ev) of
        Return _ \<Rightarrow>
          (case promise_of (snd (handle w ev)) of
             Fulfilled v \<Rightarrow> (Return v, snd (handle w ev))
           | Rejected e \<Rightarrow> (Throw e, snd (handle w ev))
           | Pending \<Rightarrow> (fst (await_launch w evs), snd (handle w ev) @ snd (await_launch w evs)))
      | Throw e \<Rightarrow> (Throw e, snd (handle w ev))
      | Exit c \<Rightarrow> (Exit c, snd (handle w ev))
      | Hang \<Rightarrow> (Hang, snd (handle w ev)))"

definition startPBServer :: "world \<Rightarrow> number io" where
  "startPBServer w =
     io_bind (emit (LogDebug ''Starting PocketBase server...'')) (\<lambda>_.
     io_bind (emit SpawnChild) (\<lambda>_.
       await_launch w (child_events w)))"

section \<open>Terminator (killExistingProcess)\<close>

datatype target = Keyword string | Pid number

definition no_exit :: options where
  "no_exit = \<lparr>exitOnError = Some False, stdio = None\<rparr>"

definition no_options :: options where
  "no_options = \<lparr>exitOnError = None, stdio = None\<rparr>"

definition pkill_cmd :: "string \<Rightarrow> string" where
  "pkill_cmd pat = ''pkill -f '' @ quote @ pat @ quote"

text \<open>The result is \<open>number | undefined\<close>; \<open>undefined\<close> is \<open>None\<close>.\<close>

definition killExistingProcess :: "world \<Rightarrow> target \<Rightarrow> number option io" where
  "killExistingProcess w processKeywordOrPID =
     io_try
       (case processKeywordOrPID of
          Pid pid \<Rightarrow>
            io_bind
              (if platform w = Win32 then
                 io_bind (executeCommand w (''taskkill /F /PID '' @ show_number pid) no_exit)
                   (\<lambda>_. io_return ())
               else kill w pid SigTerm) (\<lambda>_.
            io_bind (emit (LogDebug (''Killed process with PID: ''
                                      @ highlight w (show_number pid)))) (\<lambda>_.
              io_return None))
        | Keyword kw \<Rightarrow>
            if platform w = Win32 then
              io_bind (executeCommand w (tasklist_image_cmd kw) pipe_no_exit) (\<lambda>taskResult.
              io_bind
                (if trim taskResult \<noteq> [] \<and> \<not> includes_str taskResult ''No tasks are running''
                 then
                   io_bind (executeCommand w (''taskkill /F /IM '' @ kw @ ''.exe'') no_exit) (\<lambda>_.
                     emit (LogDebug (''Killed processes matching: '' @ kw)))
                 else io_return ()) (\<lambda>_.
                io_return None))
            else
              io_bind (executeCommand w (pgrep_cmd kw) pipe_no_exit) (\<lambda>serverInstance.
                if serverInstance \<noteq> [] then
                  io_bind (executeCommand w (pkill_cmd kw) no_options) (\<lambda>_.
                  io_bind (emit (LogDebug (''Killed process matching keyword: '' @ highlight w kw
                                            @ '' (PID: '' @ highlight w serverInstance @ '')''))) (\<lambda>_.
                    io_return (Some (parseInt serverInstance))))
                else io_return None))
       (\<lambda>_. io_return None)"

section \<open>Orchestration (startPocketbase, getPBInstance)\<close>

text \<open>The cleanup closure \<open>() => { killExistingProcess(pbPid) }\<close> with the pid it captured.\<close>

datatype cleanup = Cleanup number

fun run_cleanup :: "world \<Rightarrow> cleanup \<Rightarrow> unit io" where
  "run_cleanup w (Cleanup pbPid) =
     io_bind (killExistingProcess w (Pid pbPid)) (\<lambda>_. io_return ())"

definition startPocketbase :: "world \<Rightarrow> cleanup option io" where
  "startPocketbase w =
     io_try
       (io_bind (checkRunningPBInstances w False) (\<lambda>pbRunning.
          if pbRunning then
            io_bind (emit (LogDebug ''PocketBase is already running'')) (\<lambda>_. io_return None)
          else
            io_bind (startPBServer w) (\<lambda>pbPid. io_return (Some (Cleanup pbPid)))))
       (\<lambda>err.
          io_bind (emit (LogActionable
                     (''Failed to start PocketBase server: ''
                      @ (case err of ErrorObj m \<Rightarrow> m | ThrownStatus _ \<Rightarrow> ''Unknown error''))
                     (''Run '' @ quote @ ''bun forge db init'' @ quote
                      @ '' to initialize the database or check if the PocketBase binary exists'')))
            (\<lambda>_. io_exit 1))"

text \<open>\<open>getEnvVars\<close> (utils/helpers.ts): an unset or empty variable is missing.\<close>

definition env_missing :: "world \<Rightarrow> string \<Rightarrow> bool" where
  "env_missing w varName = (case getenv w varName of None \<Rightarrow> True | Some v \<Rightarrow> v = [])"

definition getEnvVars :: "world \<Rightarrow> string list \<Rightarrow> (string \<rightharpoonup> string) io" where
  "getEnvVars w requiredVars =
     (let missing = filter (env_missing w) requiredVars in
      if length missing > 0 then
        io_bind (emit (LogActionable
                   (''Missing required environment variables: '' @ join '', '' missing)
                   (''Use the '' @ quote @ ''forge db init'' @ quote
                    @ '' command to set up the environment variables, or set them manually in your env/.env.local file'')))
          (\<lambda>_. io_exit 1)
      else io_return (\<lambda>v. if v \<in> set requiredVars then getenv w v else None))"

record pb_instance =
  pb :: string
  killPB :: "cleanup option"

definition var :: "(string \<rightharpoonup> string) \<Rightarrow> string \<Rightarrow> string" where
  "var vars k = (case vars k of Some v \<Rightarrow> v | None \<Rightarrow> [])"

text \<open>The PocketBase client is the host it was made for.\<close>

definition getPBInstance :: "world \<Rightarrow> bool \<Rightarrow> pb_instance io" where
  "getPBInstance w createNewInstance =
     io_bind (if createNewInstance then startPocketbase w else io_return None) (\<lambda>kill_pb.
     io_bind (getEnvVars w [''PB_HOST'', ''PB_EMAIL'', ''PB_PASSWORD'']) (\<lambda>vars.
       io_try
         (io_bind (emit (AuthWithPassword (var vars ''PB_EMAIL'') (var vars ''PB_PASSWORD''))) (\<lambda>_.
            case auth w of
              AuthThrows e \<Rightarrow> io_throw e
            | AuthStore isSuperuser isValid \<Rightarrow>
                if \<not> isSuperuser \<or> \<not> isValid
                then io_throw (ErrorObj ''Invalid credentials or insufficient permissions'')
                else io_return \<lparr>pb = var vars ''PB_HOST'', killPB = kill_pb\<rparr>))
         (\<lambda>err.
            io_bind (emit (LogActionable
                       (''Authentication failed: ''
                        @ (case err of ErrorObj m \<Rightarrow> m | ThrownStatus _ \<Rightarrow> ''Unknown error''))
                       ''Check PB_EMAIL and PB_PASSWORD in env/.env.local are correct''))
              (\<lambda>_. io_exit 1))))"

section \<open>Reading the oracle and the trace\<close>

text \<open>
  What \<open>executeCommand\<close> hands back for a command that succeeds (no spawn error, exit
  status 0): the trimmed standard output, or the empty string when there is none.
\<close>

definition command_output :: "world \<Rightarrow> string \<Rightarrow> stdio \<Rightarrow> string option" where
  "command_output w cmd sio =
     (let r = spawnSync w cmd sio
      in if error r = None \<and> status r = Some 0
         then Some (case stdout r of None \<Rightarrow> [] | Some out \<Rightarrow> trim out)
         else None)"

text \<open>What \<open>executeCommand\<close> throws for a command that fails.\<close>

definition command_failure :: "world \<Rightarrow> string \<Rightarrow> stdio \<Rightarrow> thrown" where
  "command_failure w cmd sio =
     (let r = spawnSync w cmd sio
      in case error r of Some e \<Rightarrow> e | None \<Rightarrow> ThrownStatus (status r))"

text \<open>The effects of one \<open>executeCommand\<close> that does not end the host process.\<close>

definition exec_trace :: "string \<Rightarrow> stdio \<Rightarrow> bool \<Rightarrow> effect list" where
  "exec_trace cmd sio ok =
     [LogDebug (''Executing: '' @ cmd), SpawnSync cmd sio]
     @ (if ok \<and> sio = Inherit then [LogDebug (''Completed: '' @ cmd)] else [])"

definition inspect_cmd :: "world \<Rightarrow> number \<Rightarrow> string" where
  "inspect_cmd w pid = (if platform w = Win32 then tasklist_pid_cmd pid else ps_cmd pid)"

definition binary_name :: "world \<Rightarrow> string" where
  "binary_name w = (if platform w = Win32 then ''pocketbase.exe'' else ''pocketbase'')"

definition search_cmd :: "world \<Rightarrow> string" where
  "search_cmd w =
     (if platform w = Win32 then tasklist_image_cmd ''pocketbase''
      else pgrep_cmd ''pocketbase serve'')"

definition genuine :: "world \<Rightarrow> number \<Rightarrow> bool" where
  "genuine w pid =
     (process_kill w pid Sig0 = None \<and>
      (case command_output w (inspect_cmd w pid) Pipe of
         None \<Rightarrow> False
       | Some out \<Rightarrow> includes_str (toLowerCase out) (binary_name w)))"

definition verify_trace :: "world \<Rightarrow> number \<Rightarrow> effect list" where
  "verify_trace w pid =
     Kill pid Sig0 #
     (if process_kill w pid Sig0 = None
      then exec_trace (inspect_cmd w pid) Pipe (command_output w (inspect_cmd w pid) Pipe \<noteq> None)
      else [])"

definition started_trace :: "world \<Rightarrow> effect list" where
  "started_trace w =
     [LogDebug (''PocketBase server started (PID: '' @ show_number (child_pid w) @ '')''),
      Resolve (child_pid w)]"

definition conflict_trace :: "effect list" where
  "conflict_trace =
     [LogActionable ''Port 8090 is already in use''
        (''Run '' @ quote @ ''pkill -f pocketbase'' @ quote
         @ '' to stop existing instances, or check for other apps using port 8090'')]"

text \<open>
  The effects of a read-only inspection: log lines, the \<open>tasklist\<close>, \<open>pgrep\<close> and
  \<open>ps\<close> commands with piped output, and the zero signal.
\<close>

definition inspection_only :: "effect \<Rightarrow> bool" where
  "inspection_only e =
     (case e of
        LogDebug _ \<Rightarrow> True
      | LogActionable _ _ \<Rightarrow> True
      | SpawnSync cmd sio \<Rightarrow>
          sio = Pipe \<and> (startsWith cmd ''tasklist '' \<or> startsWith cmd ''pgrep '' \<or> startsWith cmd ''ps '')
      | Kill _ sig \<Rightarrow> sig = Sig0
      | _ \<Rightarrow> False)"

definition running_hint_posix :: string where
  "running_hint_posix =
     ''Stop the existing instance with '' @ quote @ ''pkill -f pocketbase'' @ quote
     @ '' before proceeding''"

definition running_message :: "number list \<Rightarrow> string" where
  "running_message pids =
     ''PocketBase is already running (PID: '' @ join '', '' (map show_number pids) @ '')''"

definition win_found :: "string \<Rightarrow> bool" where
  "win_found out =
     (trim out \<noteq> [] \<and> \<not> includes_str out ''No tasks are running'' \<and> win_pids out \<noteq> [])"

text \<open>The effects that inspect, signal, start or settle: everything but log lines and the login.\<close>

definition lifecycle_effect :: "effect \<Rightarrow> bool" where
  "lifecycle_effect e =
     (case e of
        SpawnSync _ _ \<Rightarrow> True
      | Kill _ _ \<Rightarrow> True
      | SpawnChild \<Rightarrow> True
      | Resolve _ \<Rightarrow> True
      | Reject _ \<Rightarrow> True
      | _ \<Rightarrow> False)"

text \<open>The message of \<open>startPocketbase\<close> for a launch that failed.\<close>

definition start_failed :: "thrown \<Rightarrow> effect" where
  "start_failed err =
     LogActionable
       (''Failed to start PocketBase server: ''
        @ (case err of ErrorObj m \<Rightarrow> m | ThrownStatus _ \<Rightarrow> ''Unknown error''))
       (''Run '' @ quote @ ''bun forge db init'' @ quote
        @ '' to initialize the database or check if the PocketBase binary exists'')"

section \<open>Concrete hosts\<close>

definition ok_result :: "string \<Rightarrow> spawn_result" where
  "ok_result out = \<lparr>error = None, status = Some 0, stdout = Some out\<rparr>"

definition failed_result :: "int \<Rightarrow> spawn_result" where
  "failed_result c = \<lparr>error = None, status = Some c, stdout = Some []\<rparr>"

text \<open>
  A POSIX host on which one PocketBase server runs with pid 4242; a child started here
  gets pid 5000 and reports that it has started.
\<close>

definition posix_world :: world where
  "posix_world =
     \<lparr>platform = Posix,
      spawnSync = (\<lambda>cmd sio.
         if cmd = pgrep_cmd ''pocketbase serve'' then ok_result (''4242'' @ [newline])
         else if cmd = ps_cmd (Num 4242) then ok_result (''PocketBase'' @ [newline])
         else failed_result 1),
      process_kill = (\<lambda>pid sig. if pid = Num 4242 then None else Some (ErrorObj ''kill ESRCH'')),
      highlight = (\<lambda>s. s),
      child_pid = Num 5000,
      child_events = [Stdout ''Server started at http://127.0.0.1:8090''],
      getenv = (\<lambda>v. Some ''secret''),
      auth = AuthStore True True\<rparr>"

text \<open>
  A Windows host on which \<open>tasklist\<close> lists one PocketBase image, a POSIX host on
  which every inspection command fails, and one on which they print no pid.
\<close>

definition win_world :: world where
  "win_world =
     \<lparr>platform = Win32,
      spawnSync = (\<lambda>cmd sio.
         if cmd = tasklist_image_cmd ''pocketbase''
         then ok_result (quote @ ''pocketbase.exe'' @ quote @ '','' @ quote @ ''1234'' @ quote
                         @ '','' @ quote @ ''Console'' @ quote @ [newline])
         else failed_result 1),
      process_kill = (\<lambda>pid sig. Some (ErrorObj ''kill ESRCH'')),
      highlight = (\<lambda>s. s),
      child_pid = Num 5000,
      child_events = [Stdout ''Server started at http://127.0.0.1:8090''],
      getenv = (\<lambda>v. Some ''secret''),
      auth = AuthStore True True\<rparr>"

definition idle_world :: world where
  "idle_world =
     \<lparr>platform = Posix,
      spawnSync = (\<lambda>cmd sio. failed_result 1),
      process_kill = (\<lambda>pid sig. Some (ErrorObj ''kill ESRCH'')),
      highlight = (\<lambda>s. s),
      child_pid = Num 5000,
      child_events = [Stdout ''Server started at http://127.0.0.1:8090''],
      getenv = (\<lambda>v. Some ''secret''),
      auth = AuthStore True True\<rparr>"

definition garbled_world :: world where
  "garbled_world = idle_world\<lparr>spawnSync := (\<lambda>cmd sio. ok_result ''pgrep: ??'')\<rparr>"

text \<open>
  An event whose handler settles nothing: it returns, and neither resolves nor rejects.
\<close>

definition inert :: "world \<Rightarrow> child_event \<Rightarrow> bool" where
  "inert w ev = (fst (handle w ev) = Return () \<and> promise_of (snd (handle w ev)) = Pending)"

text \<open>Two chunks a child may print: a startup failure, and a start followed by a bind failure.\<close>

definition error_chunk :: string where
  "error_chunk = ''Error: cannot open database'' @ [newline]"

definition both_chunk :: string where
  "both_chunk = ''Server started'' @ [newline] @ ''listen tcp 127.0.0.1:8090: bind: address already in use''"

text \<open>
  A POSIX host where \<open>pgrep\<close> finds pid 4242 for the keyword \<open>pocketbase\<close> and
  \<open>pkill\<close> is refused, and one where it finds two pids and \<open>pkill\<close> succeeds.
\<close>

definition guarded_world :: world where
  "guarded_world =
     posix_world\<lparr>spawnSync := (\<lambda>cmd sio.
        if cmd = pgrep_cmd ''pocketbase'' then ok_result (''4242'' @ [newline])
        else failed_result 3)\<rparr>"

definition two_servers_world :: world where
  "two_servers_world =
     posix_world\<lparr>spawnSync := (\<lambda>cmd sio.
        if cmd = pgrep_cmd ''pocketbase'' then ok_result (''4242'' @ [newline] @ ''4243'' @ [newline])
        else if cmd = pkill_cmd ''pocketbase'' then \<lparr>error = None, status = Some 0, stdout = None\<rparr>
        else failed_result 1)\<rparr>"

section \<open>The monad and executeCommand, in closed form\<close>

lemma io_bind_Return: "io_bind (Return x, t) f = (fst (f x), t @ snd (f x))"
  by (simp add: io_bind_def)

lemma io_bind_Throw: "io_bind (Throw e, t) f = (Throw e, t)"
  by (simp add: io_bind_def)

lemma io_bind_Exit: "io_bind (Exit c, t) f = (Exit c, t)"
  by (simp add: io_bind_def)

lemma io_bind_Hang: "io_bind (Hang, t) f = (Hang, t)"
  by (simp add: io_bind_def)

lemma io_try_Return: "io_try (Return x, t) h = (Return x, t)"
  by (simp add: io_try_def)

lemma io_try_Throw: "io_try (Throw e, t) h = (fst (h e), t @ snd (h e))"
  by (simp add: io_try_def)

lemma io_try_Exit: "io_try (Exit c, t) h = (Exit c, t)"
  by (simp add: io_try_def)

lemma io_try_Hang: "io_try (Hang, t) h = (Hang, t)"
  by (simp add: io_try_def)

lemmas io_simps = io_bind_Return io_bind_Throw io_bind_Exit io_bind_Hang
  io_try_Return io_try_Throw io_try_Exit io_try_Hang io_return_def io_throw_def io_exit_def emit_def

lemma executeCommand_no_exit:
  assumes "exitOnError opts \<noteq> Some True"
  shows "executeCommand w cmd opts =
     (case command_output w cmd (effective_stdio opts) of
        Some out \<Rightarrow> (Return out, exec_trace cmd (effective_stdio opts) True)
      | None \<Rightarrow> (Throw (command_failure w cmd (effective_stdio opts)),
                 exec_trace cmd (effective_stdio opts) False))"
  using assms
  by (auto simp: executeCommand_def command_output_def command_failure_def exec_trace_def
      effective_stdio_def io_simps Let_def split: option.splits)

lemma executeCommand_pipe:
  "executeCommand w cmd pipe_no_exit =
     (case command_output w cmd Pipe of
        Some out \<Rightarrow> (Return out, exec_trace cmd Pipe True)
      | None \<Rightarrow> (Throw (command_failure w cmd Pipe), exec_trace cmd Pipe False))"
  by (simp add: executeCommand_no_exit pipe_no_exit_def effective_stdio_def split: option.splits)

lemma executeCommand_inherit:
  "exitOnError opts \<noteq> Some True \<Longrightarrow> stdio opts = None \<Longrightarrow>
   executeCommand w cmd opts =
     (case command_output w cmd Inherit of
        Some out \<Rightarrow> (Return out, exec_trace cmd Inherit True)
      | None \<Rightarrow> (Throw (command_failure w cmd Inherit), exec_trace cmd Inherit False))"
  by (simp add: executeCommand_no_exit effective_stdio_def split: option.splits)

section \<open>Identity Verifier: results\<close>

lemma isValid_closed:
  "isValidPocketbaseProcess w pid = (Return (genuine w pid), verify_trace w pid)"
  by (auto simp: isValidPocketbaseProcess_def kill_def executeCommand_pipe genuine_def
      verify_trace_def inspect_cmd_def binary_name_def io_simps exec_trace_def split: option.splits)

text \<open>
  C3. The Identity Verifier always returns a boolean: it never throws, never ends the host
  process and never hangs. The boolean is true exactly when the zero-signal liveness
  probe succeeds and the inspection command for that pid (\<open>tasklist\<close> on Windows,
  \<open>ps\<close> elsewhere) succeeds with an output whose lower-case form contains the expected
  binary name; a dead pid, a denied signal, a failing command and an output without the
  name all give false.
\<close>

theorem isValidPocketbaseProcess_total:
  "fst (isValidPocketbaseProcess w pid) =
     Return (process_kill w pid Sig0 = None \<and>
       (case command_output w (if platform w = Win32 then tasklist_pid_cmd pid else ps_cmd pid) Pipe of
          None \<Rightarrow> False
        | Some out \<Rightarrow> includes_str (toLowerCase out)
             (if platform w = Win32 then ''pocketbase.exe'' else ''pocketbase'')))"
  by (simp add: isValid_closed genuine_def inspect_cmd_def binary_name_def split: option.splits)

theorem isValidPocketbaseProcess_total_witness:
  "fst (isValidPocketbaseProcess posix_world (Num 4242)) = Return True
   \<and> fst (isValidPocketbaseProcess posix_world (Num 7)) = Return False"
  using isValidPocketbaseProcess_total [of posix_world "Num 4242"]
        isValidPocketbaseProcess_total [of posix_world "Num 7"]
  by (simp add: posix_world_def command_output_def ok_result_def failed_result_def
      ps_cmd_def pgrep_cmd_def show_number_def show_int_def quote_def newline_def
      trim_def is_space_def toLowerCase_def lower_char_def upper_letters_def lower_letters_def
      startsWith_def)

section \<open>Existence Probe: results\<close>

lemma filter_io_closed:
  assumes "\<And>x. p x = (Return (q x), t x)"
  shows "filter_io p xs = (Return (filter q xs), concat (map t xs))"
  by (induction xs) (simp_all add: assms io_simps)

lemma filter_isValid:
  "filter_io (isValidPocketbaseProcess w) pids =
     (Return (filter (genuine w) pids), concat (map (verify_trace w) pids))"
  by (rule filter_io_closed) (rule isValid_closed)

lemma parseInt_Nil: "parseInt [] = NaN"
  by (simp add: parseInt_def)

lemma trim_Nil: "trim [] = []"
  by (simp add: trim_def)

lemma posix_pids_blank: "trim out = [] \<Longrightarrow> posix_pids out = []"
  by (simp add: posix_pids_def parseInt_Nil trim_Nil isNaN_def)

lemma probe_posix_closed:
  assumes "platform w = Posix"
  shows "checkRunningPBInstances w x =
    (case command_output w (pgrep_cmd ''pocketbase serve'') Pipe of
       None \<Rightarrow> (Return False, exec_trace (pgrep_cmd ''pocketbase serve'') Pipe False)
     | Some out \<Rightarrow>
         (if filter (genuine w) (posix_pids out) = [] then Return False
          else if x then Exit 1 else Return True,
          exec_trace (pgrep_cmd ''pocketbase serve'') Pipe True
          @ concat (map (verify_trace w) (posix_pids out))
          @ (if filter (genuine w) (posix_pids out) \<noteq> [] \<and> x
             then [LogActionable (running_message (filter (genuine w) (posix_pids out)))
                     running_hint_posix]
             else [])))"
  using assms
  by (auto simp: checkRunningPBInstances_def executeCommand_pipe filter_isValid io_simps
      already_running_exit_def posix_pids_blank Let_def running_message_def running_hint_posix_def
      split: option.splits)

lemma probe_win_closed:
  assumes "platform w = Win32"
  shows "checkRunningPBInstances w x =
    (case command_output w (tasklist_image_cmd ''pocketbase'') Pipe of
       None \<Rightarrow> (Return False, exec_trace (tasklist_image_cmd ''pocketbase'') Pipe False)
     | Some out \<Rightarrow>
         (if \<not> win_found out then Return False
          else if x then Exit 1 else Return True,
          exec_trace (tasklist_image_cmd ''pocketbase'') Pipe True
          @ (if win_found out \<and> x
             then [LogActionable (running_message (win_pids out))
                    ''Stop the existing instance before proceeding'']
             else [])))"
  using assms
  by (auto simp: checkRunningPBInstances_def executeCommand_pipe io_simps win_found_def
      already_running_exit_def Let_def running_message_def split: option.splits)

lemma verify_trace_inspection: "e \<in> set (verify_trace w pid) \<Longrightarrow> inspection_only e"
  by (auto simp: verify_trace_def exec_trace_def inspection_only_def inspect_cmd_def
      tasklist_pid_cmd_def ps_cmd_def startsWith_def split: if_splits)

lemma probe_inspection: "e \<in> set (snd (checkRunningPBInstances w x)) \<Longrightarrow> inspection_only e"
proof (cases "platform w")
  case Win32
  then show "e \<in> set (snd (checkRunningPBInstances w x)) \<Longrightarrow> inspection_only e"
    by (auto simp: probe_win_closed exec_trace_def inspection_only_def tasklist_image_cmd_def
        startsWith_def split: option.splits if_splits)
next
  case Posix
  then show "e \<in> set (snd (checkRunningPBInstances w x)) \<Longrightarrow> inspection_only e"
    by (auto simp: probe_posix_closed exec_trace_def pgrep_cmd_def
        startsWith_def split: option.splits if_splits dest: verify_trace_inspection)
       (simp_all add: inspection_only_def startsWith_def)
qed

lemma probe_no_exit_flag:
  "fst (checkRunningPBInstances w False) = Return True \<or>
   fst (checkRunningPBInstances w False) = Return False"
  by (cases "platform w") (auto simp: probe_win_closed probe_posix_closed split: option.splits)

lemma probe_exit_flag:
  "fst (checkRunningPBInstances w True) =
     (if fst (checkRunningPBInstances w False) = Return True then Exit 1 else Return False)"
  by (cases "platform w") (auto simp: probe_win_closed probe_posix_closed split: option.splits)


lemmas string_eval = quote_def newline_def trim_def is_space_def is_digit_def toLowerCase_def
  lower_char_def upper_letters_def lower_letters_def startsWith_def show_number_def show_int_def
  parseInt_def digits_val_def digit_val_def isNaN_def strip_quotes_def match_at_def

lemmas cmd_eval = pgrep_cmd_def ps_cmd_def tasklist_image_cmd_def tasklist_pid_cmd_def pkill_cmd_def
  command_output_def ok_result_def failed_result_def

lemma posix_world_pids: "command_output posix_world (pgrep_cmd ''pocketbase serve'') Pipe = Some ''4242''"
  by (simp add: posix_world_def cmd_eval string_eval)

lemma posix_pids_4242: "posix_pids ''4242'' = [Num 4242]"
  by (simp add: posix_pids_def string_eval)

lemma posix_world_genuine: "genuine posix_world (Num 4242)"
  by (simp add: genuine_def inspect_cmd_def binary_name_def posix_world_def cmd_eval string_eval)

lemma posix_world_platform: "platform posix_world = Posix"
  by (simp add: posix_world_def)

lemma posix_world_probe:
  "fst (checkRunningPBInstances posix_world x) = (if x then Exit 1 else Return True)"
  by (simp add: probe_posix_closed posix_world_platform posix_world_pids posix_pids_4242
      posix_world_genuine)

text \<open>
  Against C2 as stated: on \<open>posix_world\<close>, where a genuine server runs, the probe called
  with its default \<open>exitOnError = true\<close> ends the host process with code 1.
\<close>

theorem probe_exits_host_counterexample:
  "fst (checkRunningPBInstances posix_world True) = Exit 1"
  by (simp add: posix_world_probe)

text \<open>
  C2, amended. Called with \<open>exitOnError = false\<close>, as the orchestration flow calls it,
  the Existence Probe returns a boolean on every platform and every process table and
  leaves the host process running; whatever the flag, its only effects are log lines, the
  \<open>tasklist\<close>, \<open>pgrep\<close> and \<open>ps\<close> inspection commands and zero-signal probes. Called
  with \<open>exitOnError = true\<close> it ends the host process with code 1 exactly when it would
  have returned true, and returns false otherwise.
\<close>

theorem probe_read_only:
  "(fst (checkRunningPBInstances w False) = Return True \<or>
    fst (checkRunningPBInstances w False) = Return False)
   \<and> (\<forall>e \<in> set (snd (checkRunningPBInstances w x)). inspection_only e)
   \<and> fst (checkRunningPBInstances w True) =
       (if fst (checkRunningPBInstances w False) = Return True then Exit 1 else Return False)"
  using probe_no_exit_flag [of w] probe_exit_flag [of w] probe_inspection [of _ w x]
  by blast

theorem probe_read_only_witness:
  "fst (checkRunningPBInstances posix_world False) = Return True
   \<and> inspection_only (Kill (Num 4242) Sig0)
   \<and> fst (checkRunningPBInstances posix_world True) = Exit 1"
proof -
  have run: "fst (checkRunningPBInstances posix_world False) = Return True"
    by (simp add: posix_world_probe)
  have "Kill (Num 4242) Sig0 \<in> set (snd (checkRunningPBInstances posix_world False))"
    by (simp add: probe_posix_closed posix_world_platform posix_world_pids posix_pids_4242
        verify_trace_def)
  with run probe_read_only [of posix_world False] show ?thesis
    by auto
qed

text \<open>
  C4. On POSIX, when \<open>pgrep\<close> succeeds, the probe runs the Identity Verifier on every pid
  parsed from its output, in order, and reports running exactly when one of them is
  verified; when \<open>pgrep\<close> fails (no match) or prints nothing, it reports not running. On
  Windows the probe runs \<open>tasklist\<close> alone, with no verification per pid, and reports
  running exactly when the output is not blank, is not the no-tasks notice and holds a
  quoted pid.
\<close>

theorem probe_verifies_each_pid:
  "(platform w = Posix \<longrightarrow>
      (\<forall>out. command_output w (pgrep_cmd ''pocketbase serve'') Pipe = Some out \<longrightarrow>
         snd (checkRunningPBInstances w False) =
           exec_trace (pgrep_cmd ''pocketbase serve'') Pipe True
           @ concat (map (\<lambda>pid. snd (isValidPocketbaseProcess w pid)) (posix_pids out))
         \<and> fst (checkRunningPBInstances w False) =
             Return (\<exists>pid \<in> set (posix_pids out).
                       fst (isValidPocketbaseProcess w pid) = Return True))
      \<and> (command_output w (pgrep_cmd ''pocketbase serve'') Pipe = None \<or>
          command_output w (pgrep_cmd ''pocketbase serve'') Pipe = Some [] \<longrightarrow>
            fst (checkRunningPBInstances w x) = Return False))
   \<and> (platform w = Win32 \<longrightarrow>
      (\<forall>out. command_output w (tasklist_image_cmd ''pocketbase'') Pipe = Some out \<longrightarrow>
         snd (checkRunningPBInstances w False) =
           exec_trace (tasklist_image_cmd ''pocketbase'') Pipe True
         \<and> fst (checkRunningPBInstances w False) =
             Return (trim out \<noteq> [] \<and> \<not> includes_str out ''No tasks are running''
                     \<and> win_pids out \<noteq> [])))"
proof (intro conjI impI allI)
  fix out
  assume p: "platform w = Posix"
    and o: "command_output w (pgrep_cmd ''pocketbase serve'') Pipe = Some out"
  have vt: "(\<lambda>pid. snd (isValidPocketbaseProcess w pid)) = verify_trace w"
    by (simp add: isValid_closed)
  show "snd (checkRunningPBInstances w False) =
           exec_trace (pgrep_cmd ''pocketbase serve'') Pipe True
           @ concat (map (\<lambda>pid. snd (isValidPocketbaseProcess w pid)) (posix_pids out))"
    by (simp add: probe_posix_closed p o vt)
  show "fst (checkRunningPBInstances w False) =
             Return (\<exists>pid \<in> set (posix_pids out).
                       fst (isValidPocketbaseProcess w pid) = Return True)"
    by (auto simp: probe_posix_closed p o isValid_closed filter_empty_conv)
next
  assume p: "platform w = Posix"
    and o: "command_output w (pgrep_cmd ''pocketbase serve'') Pipe = None \<or>
          command_output w (pgrep_cmd ''pocketbase serve'') Pipe = Some []"
  have "posix_pids [] = []"
    by (simp add: posix_pids_blank trim_Nil)
  with o show "fst (checkRunningPBInstances w x) = Return False"
    by (auto simp: probe_posix_closed p)
next
  fix out
  assume p: "platform w = Win32"
    and o: "command_output w (tasklist_image_cmd ''pocketbase'') Pipe = Some out"
  show "snd (checkRunningPBInstances w False) =
           exec_trace (tasklist_image_cmd ''pocketbase'') Pipe True"
    by (simp add: probe_win_closed p o)
  show "fst (checkRunningPBInstances w False) =
             Return (trim out \<noteq> [] \<and> \<not> includes_str out ''No tasks are running''
                     \<and> win_pids out \<noteq> [])"
    by (simp add: probe_win_closed p o win_found_def)
qed


lemma win_world_platform: "platform win_world = Win32"
  by (simp add: win_world_def)

lemma win_world_out:
  "command_output win_world (tasklist_image_cmd ''pocketbase'') Pipe =
     Some (quote @ ''pocketbase.exe'' @ quote @ '','' @ quote @ ''1234'' @ quote
           @ '','' @ quote @ ''Console'' @ quote)"
  by (simp add: win_world_def cmd_eval string_eval)

lemma win_world_pids:
  "win_pids (quote @ ''pocketbase.exe'' @ quote @ '','' @ quote @ ''1234'' @ quote
           @ '','' @ quote @ ''Console'' @ quote) = [Num 1234]"
  by (simp add: win_pids_def string_eval)

theorem probe_verifies_each_pid_witness:
  "fst (checkRunningPBInstances posix_world False) = Return True
   \<and> Kill (Num 4242) Sig0 \<in> set (snd (checkRunningPBInstances posix_world False))
   \<and> fst (checkRunningPBInstances idle_world False) = Return False
   \<and> checkRunningPBInstances win_world False =
        (Return True, exec_trace (tasklist_image_cmd ''pocketbase'') Pipe True)"
proof -
  have idle: "platform idle_world = Posix"
    "command_output idle_world (pgrep_cmd ''pocketbase serve'') Pipe = None"
    by (simp_all add: idle_world_def cmd_eval)
  have valid: "fst (isValidPocketbaseProcess posix_world (Num 4242)) = Return True"
    "Kill (Num 4242) Sig0 \<in> set (snd (isValidPocketbaseProcess posix_world (Num 4242)))"
    by (simp_all add: isValid_closed posix_world_genuine verify_trace_def)
  have found: "trim (quote @ ''pocketbase.exe'' @ quote @ '','' @ quote @ ''1234'' @ quote
           @ '','' @ quote @ ''Console'' @ quote) \<noteq> []"
    "\<not> includes_str (quote @ ''pocketbase.exe'' @ quote @ '','' @ quote @ ''1234'' @ quote
           @ '','' @ quote @ ''Console'' @ quote) ''No tasks are running''"
    by (simp_all add: string_eval)
  show ?thesis
    using probe_verifies_each_pid [of posix_world False] probe_verifies_each_pid [of idle_world False]
      probe_verifies_each_pid [of win_world False]
      posix_world_platform posix_world_pids posix_pids_4242 valid idle
      win_world_platform win_world_out win_world_pids found
    by (simp add: prod_eq_iff)
qed

text \<open>
  C5. The Existence Probe never throws and never hangs. When the search command fails to
  spawn or exits with a status other than 0, when it prints no parsable pid, and (on
  POSIX) when the \<open>ps\<close> command of the verifier fails for every pid, the probe
  returns false, whatever the \<open>exitOnError\<close> flag.
\<close>

theorem probe_fail_open:
  "(\<forall>e. fst (checkRunningPBInstances w x) \<noteq> Throw e)
   \<and> fst (checkRunningPBInstances w x) \<noteq> Hang
   \<and> (error (spawnSync w (search_cmd w) Pipe) \<noteq> None \<or>
       status (spawnSync w (search_cmd w) Pipe) \<noteq> Some 0 \<longrightarrow>
         fst (checkRunningPBInstances w x) = Return False)
   \<and> (\<forall>out. command_output w (search_cmd w) Pipe = Some out
          \<and> (if platform w = Win32 then win_pids out else posix_pids out) = [] \<longrightarrow>
         fst (checkRunningPBInstances w x) = Return False)
   \<and> (platform w = Posix \<and> (\<forall>pid. command_output w (ps_cmd pid) Pipe = None) \<longrightarrow>
         fst (checkRunningPBInstances w x) = Return False)"
proof (cases "platform w")
  case Win32
  then show ?thesis
    by (auto simp: probe_win_closed search_cmd_def command_output_def win_found_def Let_def
        split: option.splits if_splits)
next
  case Posix
  have "\<forall>pid. command_output w (ps_cmd pid) Pipe = None \<Longrightarrow> filter (genuine w) pids = []" for pids
    using Posix by (simp add: genuine_def inspect_cmd_def filter_empty_conv)
  with Posix show ?thesis
    by (auto simp: probe_posix_closed search_cmd_def command_output_def Let_def
        split: option.splits if_splits)
qed

theorem probe_fail_open_witness:
  "fst (checkRunningPBInstances idle_world True) = Return False
   \<and> fst (checkRunningPBInstances garbled_world True) = Return False"
proof -
  have idle: "status (spawnSync idle_world (search_cmd idle_world) Pipe) \<noteq> Some 0"
    by (simp add: idle_world_def cmd_eval)
  have garbled: "platform garbled_world \<noteq> Win32"
    "command_output garbled_world (search_cmd garbled_world) Pipe = Some ''pgrep: ??''"
    "posix_pids ''pgrep: ??'' = []"
    by (simp_all add: garbled_world_def idle_world_def cmd_eval posix_pids_def string_eval)
  show ?thesis
    using probe_fail_open [of idle_world True] probe_fail_open [of garbled_world True] idle garbled
    by simp
qed


section \<open>Launcher: results\<close>

lemma promise_of_append:
  "promise_of (xs @ ys) = (case promise_of xs of Pending \<Rightarrow> promise_of ys | p \<Rightarrow> p)"
  by (induction xs rule: promise_of.induct) simp_all

lemma on_stdout_closed:
  "on_stdout w output =
     (if startsWith output ''Error:'' then (Return (), [Reject (ErrorObj (trim output))])
      else (if includes_str output ''bind: address already in use'' then Exit 1 else Return (),
            (if includes_str output ''Server started'' then started_trace w else [])
            @ (if includes_str output ''bind: address already in use'' then conflict_trace else [])))"
  by (simp add: on_stdout_def io_simps started_trace_def conflict_trace_def)

lemma on_exit_closed:
  "on_exit code =
     (Return (),
      if code \<noteq> Some 0
      then [LogDebug (''PocketBase exited with code '' @ show_status code),
            Reject (ErrorObj (''PocketBase process exited with code '' @ show_status code))]
      else [])"
  by (simp add: on_exit_def io_simps)

lemma handle_resolves_child_pid:
  "promise_of (snd (handle w ev)) = Fulfilled v \<Longrightarrow> v = child_pid w"
  by (cases ev)
     (auto simp: on_stdout_closed on_stderr_def on_error_def on_exit_closed io_simps
        started_trace_def conflict_trace_def split: if_splits)

lemma await_launch_pid:
  "fst (await_launch w evs) = Return v \<Longrightarrow> v = child_pid w"
proof (induction evs)
  case Nil
  then show ?case by simp
next
  case (Cons ev evs)
  then show ?case
    by (auto split: outcome.splits promise.splits dest: handle_resolves_child_pid)
qed

lemma startPBServer_pid:
  "fst (startPBServer w) = Return v \<Longrightarrow> v = child_pid w"
  by (auto simp: startPBServer_def io_simps dest: await_launch_pid)

lemma await_launch_inert:
  "\<forall>ev \<in> set pre. inert w ev \<Longrightarrow>
   fst (await_launch w (pre @ evs)) = fst (await_launch w evs)"
  by (induction pre) (simp_all add: inert_def)

lemma startPBServer_outcome:
  "fst (startPBServer w) = fst (await_launch w (child_events w))"
  by (simp add: startPBServer_def io_simps)

text \<open>
  Against C1 as stated: a chunk that does not begin with \<open>Error:\<close> and contains both
  \<open>Server started\<close> and \<open>bind: address already in use\<close> makes the handler resolve
  the promise with the child's pid and then end the host process; the conflict does not
  pre-empt the resolution.
\<close>

theorem stdout_both_patterns_counterexample:
  "\<not> startsWith both_chunk ''Error:''
   \<and> includes_str both_chunk ''bind: address already in use''
   \<and> includes_str both_chunk ''Server started''
   \<and> on_stdout posix_world both_chunk =
       (Exit 1,
        [LogDebug ''PocketBase server started (PID: 5000)'', Resolve (Num 5000)] @ conflict_trace)"
  by (simp add: on_stdout_closed both_chunk_def started_trace_def posix_world_def
      startsWith_def newline_def show_number_def show_int_def)

text \<open>
  C1, amended. A chunk beginning with \<open>Error:\<close> rejects the promise with the trimmed
  chunk and nothing else is looked at. Otherwise both remaining tests are made, in this
  order: a chunk containing \<open>Server started\<close> resolves the promise with the child's pid,
  and then a chunk containing \<open>bind: address already in use\<close> reports the conflict and
  ends the host process with code 1. A chunk containing both is resolved first and ends
  the host process afterwards, so that the awaiting caller never resumes; a chunk with
  the start line alone hands the child's pid to the awaiting caller.
\<close>

theorem stdout_classification:
  "(startsWith output ''Error:'' \<longrightarrow>
      on_stdout w output = (Return (), [Reject (ErrorObj (trim output))]))
   \<and> (\<not> startsWith output ''Error:'' \<longrightarrow>
        on_stdout w output =
          (if includes_str output ''bind: address already in use'' then Exit 1 else Return (),
           (if includes_str output ''Server started'' then started_trace w else [])
           @ (if includes_str output ''bind: address already in use'' then conflict_trace else []))
        \<and> (includes_str output ''Server started'' \<longrightarrow>
             promise_of (snd (on_stdout w output)) = Fulfilled (child_pid w))
        \<and> (\<not> includes_str output ''Server started'' \<longrightarrow>
             promise_of (snd (on_stdout w output)) = Pending)
        \<and> (includes_str output ''bind: address already in use'' \<longrightarrow>
             fst (await_launch w (Stdout output # evs)) = Exit 1)
        \<and> (includes_str output ''Server started''
             \<and> \<not> includes_str output ''bind: address already in use'' \<longrightarrow>
             fst (await_launch w (Stdout output # evs)) = Return (child_pid w)))"
  by (simp add: on_stdout_closed started_trace_def conflict_trace_def)

theorem stdout_classification_witness:
  "on_stdout posix_world error_chunk = (Return (), [Reject (ErrorObj ''Error: cannot open database'')])
   \<and> on_stdout posix_world ''Server started at http://127.0.0.1:8090''
       = (Return (), started_trace posix_world)
   \<and> on_stdout posix_world ''listen tcp 127.0.0.1:8090: bind: address already in use''
       = (Exit 1, conflict_trace)"
proof -
  have "startsWith error_chunk ''Error:''" "trim error_chunk = ''Error: cannot open database''"
    "\<not> startsWith ''Server started at http://127.0.0.1:8090'' ''Error:''"
    "includes_str ''Server started at http://127.0.0.1:8090'' ''Server started''"
    "\<not> includes_str ''Server started at http://127.0.0.1:8090'' ''bind: address already in use''"
    "\<not> startsWith ''listen tcp 127.0.0.1:8090: bind: address already in use'' ''Error:''"
    "\<not> includes_str ''listen tcp 127.0.0.1:8090: bind: address already in use'' ''Server started''"
    "includes_str ''listen tcp 127.0.0.1:8090: bind: address already in use'' ''bind: address already in use''"
    by (simp_all add: error_chunk_def startsWith_def trim_def is_space_def newline_def)
  then show ?thesis
    using stdout_classification [of error_chunk posix_world]
      stdout_classification [of "''Server started at http://127.0.0.1:8090''" posix_world]
      stdout_classification [of "''listen tcp 127.0.0.1:8090: bind: address already in use''" posix_world]
    by simp
qed

text \<open>
  C6. A stdout chunk beginning with \<open>Error:\<close> makes the handler call \<open>reject\<close> with an
  error whose message is the trimmed chunk, and nothing else: no \<open>resolve\<close>, no exit.
  A promise pending until then is rejected with that error, and a launch whose earlier
  events settled nothing throws it to the awaiting caller.
\<close>

theorem stdout_error_rejects:
  assumes "startsWith chunk ''Error:''"
  shows "on_stdout w chunk = (Return (), [Reject (ErrorObj (trim chunk))])
    \<and> (promise_of t = Pending \<longrightarrow>
         promise_of (t @ snd (on_stdout w chunk)) = Rejected (ErrorObj (trim chunk)))
    \<and> ((\<forall>ev \<in> set pre. inert w ev) \<and> child_events w = pre @ Stdout chunk # evs \<longrightarrow>
         fst (startPBServer w) = Throw (ErrorObj (trim chunk)))"
  using assms
  by (auto simp: on_stdout_closed promise_of_append startPBServer_outcome await_launch_inert)

theorem stdout_error_rejects_witness:
  "startsWith error_chunk ''Error:''
   \<and> fst (startPBServer (posix_world\<lparr>child_events := [ExitEvent (Some 0), Stdout error_chunk]\<rparr>))
       = Throw (ErrorObj ''Error: cannot open database'')"
proof -
  have "startsWith error_chunk ''Error:''" "trim error_chunk = ''Error: cannot open database''"
    by (simp_all add: error_chunk_def startsWith_def trim_def is_space_def newline_def)
  then show ?thesis
    using stdout_error_rejects [of error_chunk "posix_world\<lparr>child_events := [ExitEvent (Some 0), Stdout error_chunk]\<rparr>"
        "[]" "[ExitEvent (Some 0)]" "[]"]
    by (simp add: inert_def on_exit_closed)
qed

text \<open>
  C9. For every exit code other than 0, \<open>null\<close> included, the exit handler calls
  \<open>reject\<close> with the message \<open>PocketBase process exited with code\<close> followed by the
  code (\<open>null\<close> for a missing code); a pending promise is rejected with it and the
  awaiting caller receives it. An exit with code 0 does nothing and leaves the promise as
  it was.
\<close>

theorem exit_handler_rejects_nonzero:
  "(code \<noteq> Some 0 \<longrightarrow>
      on_exit code =
        (Return (),
         [LogDebug (''PocketBase exited with code '' @ show_status code),
          Reject (ErrorObj (''PocketBase process exited with code '' @ show_status code))])
      \<and> (promise_of t = Pending \<longrightarrow>
           promise_of (t @ snd (on_exit code)) =
             Rejected (ErrorObj (''PocketBase process exited with code '' @ show_status code)))
      \<and> ((\<forall>ev \<in> set pre. inert w ev) \<and> child_events w = pre @ ExitEvent code # evs \<longrightarrow>
           fst (startPBServer w) =
             Throw (ErrorObj (''PocketBase process exited with code '' @ show_status code))))
   \<and> on_exit (Some 0) = (Return (), [])
   \<and> promise_of (t @ snd (on_exit (Some 0))) = promise_of t
   \<and> show_status None = ''null''"
  by (auto simp: on_exit_closed promise_of_append startPBServer_outcome await_launch_inert
      show_status_def split: promise.splits)

theorem exit_handler_rejects_nonzero_witness:
  "fst (startPBServer (posix_world\<lparr>child_events := [ExitEvent None]\<rparr>))
     = Throw (ErrorObj ''PocketBase process exited with code null'')
   \<and> fst (startPBServer (posix_world\<lparr>child_events := [ExitEvent (Some 0), ExitEvent (Some 2)]\<rparr>))
     = Throw (ErrorObj ''PocketBase process exited with code 2'')
   \<and> fst (startPBServer (posix_world\<lparr>child_events := [ExitEvent (Some 0)]\<rparr>)) = Hang"
  using exit_handler_rejects_nonzero [of None "[]" "[]" "posix_world\<lparr>child_events := [ExitEvent None]\<rparr>" "[]"]
    exit_handler_rejects_nonzero [of "Some 2" "[]" "[ExitEvent (Some 0)]"
      "posix_world\<lparr>child_events := [ExitEvent (Some 0), ExitEvent (Some 2)]\<rparr>" "[]"]
  by (simp add: inert_def on_exit_closed show_status_def show_int_def startPBServer_outcome)


section \<open>Terminator: results\<close>

lemma kill_pid_closed:
  "killExistingProcess w (Pid pid) =
     (Return None,
      (if platform w = Win32
       then exec_trace (''taskkill /F /PID '' @ show_number pid) Inherit
              (command_output w (''taskkill /F /PID '' @ show_number pid) Inherit \<noteq> None)
            @ (if command_output w (''taskkill /F /PID '' @ show_number pid) Inherit \<noteq> None
               then [LogDebug (''Killed process with PID: '' @ highlight w (show_number pid))] else [])
       else Kill pid SigTerm #
            (if process_kill w pid SigTerm = None
             then [LogDebug (''Killed process with PID: '' @ highlight w (show_number pid))] else [])))"
  by (auto simp: killExistingProcess_def executeCommand_inherit no_exit_def kill_def io_simps
      split: option.splits)

lemma kill_keyword_posix:
  assumes "platform w = Posix"
  shows "fst (killExistingProcess w (Keyword kw)) =
     Return (case command_output w (pgrep_cmd kw) Pipe of
               None \<Rightarrow> None
             | Some out \<Rightarrow>
                 if out \<noteq> [] \<and> command_output w (pkill_cmd kw) Inherit \<noteq> None
                 then Some (parseInt out) else None)"
  using assms
  by (auto simp: killExistingProcess_def executeCommand_inherit executeCommand_pipe no_options_def
      io_simps split: option.splits)

lemma kill_keyword_win:
  assumes "platform w = Win32"
  shows "fst (killExistingProcess w (Keyword kw)) = Return None"
  using assms
  by (auto simp: killExistingProcess_def executeCommand_inherit executeCommand_pipe no_exit_def
      io_simps split: option.splits)

lemma kill_returns: "\<exists>r. fst (killExistingProcess w a) = Return r"
proof (cases a)
  case (Keyword kw)
  then show ?thesis
    by (cases "platform w") (simp_all add: kill_keyword_posix kill_keyword_win)
next
  case (Pid pid)
  then show ?thesis by (simp add: kill_pid_closed)
qed

lemma takeWhile_twice:
  "(\<And>x. P x \<Longrightarrow> Q x) \<Longrightarrow> takeWhile P (takeWhile Q xs) = takeWhile P xs"
  by (induction xs) auto

lemma split_on_nonempty: "split_on d s \<noteq> []"
  by (induction s) (auto split: list.splits)

lemma hd_split_on: "hd (split_on d s) = takeWhile (\<lambda>c. c \<noteq> d) s"
  by (induction s) (auto simp: split_on_nonempty split: list.splits)

lemma newline_space: "is_space newline"
  by (simp add: is_space_def newline_def)

lemma digit_not_newline: "is_digit c \<Longrightarrow> c \<noteq> newline"
  by (auto simp: is_digit_def newline_def)

lemma parseInt_first_line:
  assumes "dropWhile is_space s = s"
  shows "parseInt (hd (split_on newline s)) = parseInt s"
proof (cases s)
  case Nil
  then show ?thesis by simp
next
  case (Cons c r)
  with assms have c: "\<not> is_space c"
    by (metis hd_dropWhile list.sel(1) list.distinct(1))
  then have nl: "c \<noteq> newline"
    using newline_space by auto
  have tw: "takeWhile is_digit (takeWhile (\<lambda>c. c \<noteq> newline) xs) = takeWhile is_digit xs" for xs
    by (rule takeWhile_twice) (rule digit_not_newline)
  have first: "hd (split_on newline s) = c # takeWhile (\<lambda>c. c \<noteq> newline) r"
    unfolding hd_split_on using nl by (simp add: Cons)
  have "parseInt (c # takeWhile (\<lambda>c. c \<noteq> newline) r) = parseInt (c # r)"
    using c by (auto simp: parseInt_def Let_def tw)
  then show ?thesis
    unfolding first by (simp only: Cons)
qed

lemma dropWhile_snoc_keep:
  "\<not> P h \<Longrightarrow> \<exists>zs. dropWhile P (xs @ [h]) = zs @ [h]"
  by (induction xs) auto

lemma trim_no_leading: "dropWhile is_space (trim s) = trim s"
proof (cases "dropWhile is_space s")
  case Nil
  have "trim s = []"
    unfolding trim_def Nil by simp
  then show ?thesis by simp
next
  case (Cons h t)
  then have h: "\<not> is_space h"
    by (metis hd_dropWhile list.sel(1) list.distinct(1))
  obtain zs where "dropWhile is_space (rev t @ [h]) = zs @ [h]"
    using dropWhile_snoc_keep [of is_space h "rev t"] h by blast
  then show ?thesis
    using h by (simp add: trim_def Cons)
qed

lemma command_output_trimmed:
  "command_output w cmd sio = Some out \<Longrightarrow> dropWhile is_space out = out"
  by (auto simp: command_output_def Let_def trim_no_leading split: if_splits option.splits)

text \<open>
  Against C7 as stated: on \<open>guarded_world\<close>, a POSIX host where \<open>pgrep\<close> matches pid
  4242 and \<open>pkill\<close> fails, the Terminator returns \<open>undefined\<close>, not the matched pid.
\<close>

theorem kill_keyword_unkilled_counterexample:
  "platform guarded_world = Posix
   \<and> command_output guarded_world (pgrep_cmd ''pocketbase'') Pipe = Some ''4242''
   \<and> fst (killExistingProcess guarded_world (Keyword ''pocketbase'')) = Return None"
proof -
  have "platform guarded_world = Posix"
    "command_output guarded_world (pgrep_cmd ''pocketbase'') Pipe = Some ''4242''"
    "command_output guarded_world (pkill_cmd ''pocketbase'') Inherit = None"
    by (simp_all add: guarded_world_def posix_world_def cmd_eval string_eval)
  then show ?thesis
    by (simp add: kill_keyword_posix)
qed

text \<open>
  C7, amended. The Terminator always returns: it never throws, never ends the host
  process, never hangs. Given a pid it returns \<open>undefined\<close>. Given a keyword it returns
  \<open>undefined\<close> on Windows, and on POSIX when \<open>pgrep\<close> fails (no match) or prints
  nothing; when \<open>pgrep\<close> prints matches it returns the first matched pid, parsed as an
  integer, if the \<open>pkill\<close> command succeeds, and \<open>undefined\<close> if \<open>pkill\<close> fails.
\<close>

theorem killExistingProcess_swallows:
  "(\<exists>r. fst (killExistingProcess w a) = Return r)
   \<and> fst (killExistingProcess w (Pid pid)) = Return None
   \<and> (platform w = Win32 \<longrightarrow> fst (killExistingProcess w (Keyword kw)) = Return None)
   \<and> (platform w = Posix \<longrightarrow>
        (command_output w (pgrep_cmd kw) Pipe = None \<or>
         command_output w (pgrep_cmd kw) Pipe = Some [] \<longrightarrow>
           fst (killExistingProcess w (Keyword kw)) = Return None)
        \<and> (\<forall>out. command_output w (pgrep_cmd kw) Pipe = Some out \<and> out \<noteq> [] \<longrightarrow>
              fst (killExistingProcess w (Keyword kw)) =
                (if command_output w (pkill_cmd kw) Inherit \<noteq> None
                 then Return (Some (parseInt out)) else Return None)
              \<and> parseInt out = parseInt (hd (split_on newline out))))"
  using kill_returns [of w a]
  by (auto simp: kill_pid_closed kill_keyword_win kill_keyword_posix
      parseInt_first_line command_output_trimmed)


theorem killExistingProcess_swallows_witness:
  "fst (killExistingProcess two_servers_world (Keyword ''pocketbase'')) = Return (Some (Num 4242))
   \<and> fst (killExistingProcess idle_world (Keyword ''pocketbase'')) = Return None
   \<and> fst (killExistingProcess win_world (Keyword ''pocketbase'')) = Return None"
proof -
  have two: "platform two_servers_world = Posix"
    "command_output two_servers_world (pgrep_cmd ''pocketbase'') Pipe
       = Some (''4242'' @ [newline] @ ''4243'')"
    "command_output two_servers_world (pkill_cmd ''pocketbase'') Inherit \<noteq> None"
    "parseInt (''4242'' @ [newline] @ ''4243'') = Num 4242"
    by (simp_all add: two_servers_world_def posix_world_def cmd_eval string_eval)
  have idle: "platform idle_world = Posix"
    "command_output idle_world (pgrep_cmd ''pocketbase'') Pipe = None"
    by (simp_all add: idle_world_def cmd_eval)
  have win: "platform win_world = Win32"
    by (simp add: win_world_def)
  show ?thesis
    using killExistingProcess_swallows [of two_servers_world "Keyword ''pocketbase''" NaN "''pocketbase''"]
      killExistingProcess_swallows [of idle_world "Keyword ''pocketbase''" NaN "''pocketbase''"]
      killExistingProcess_swallows [of win_world "Keyword ''pocketbase''" NaN "''pocketbase''"]
      two idle win
    by simp
qed

section \<open>Orchestration: results\<close>

lemma startPocketbase_running:
  assumes "fst (checkRunningPBInstances w False) = Return True"
  shows "startPocketbase w =
     (Return None, snd (checkRunningPBInstances w False) @ [LogDebug ''PocketBase is already running''])"
  using assms
  by (cases "checkRunningPBInstances w False") (simp add: startPocketbase_def io_simps)

lemma startPocketbase_launch:
  assumes "fst (checkRunningPBInstances w False) = Return False"
  shows "startPocketbase w =
     (case fst (startPBServer w) of
        Return v \<Rightarrow> (Return (Some (Cleanup v)), snd (checkRunningPBInstances w False) @ snd (startPBServer w))
      | Throw e \<Rightarrow> (Exit 1, snd (checkRunningPBInstances w False) @ snd (startPBServer w) @ [start_failed e])
      | Exit c \<Rightarrow> (Exit c, snd (checkRunningPBInstances w False) @ snd (startPBServer w))
      | Hang \<Rightarrow> (Hang, snd (checkRunningPBInstances w False) @ snd (startPBServer w)))"
  using assms
  by (cases "checkRunningPBInstances w False"; cases "startPBServer w")
     (simp add: startPocketbase_def io_simps start_failed_def split: outcome.splits)

lemma startPBServer_spawns: "SpawnChild \<in> set (snd (startPBServer w))"
  by (simp add: startPBServer_def io_simps)

lemma probe_never_spawns: "SpawnChild \<notin> set (snd (checkRunningPBInstances w x))"
  using probe_inspection [of SpawnChild w x] by (auto simp: inspection_only_def)

lemma startPocketbase_Some:
  assumes "fst (startPocketbase w) = Return (Some c)"
  shows "c = Cleanup (child_pid w) \<and> fst (checkRunningPBInstances w False) = Return False
         \<and> fst (startPBServer w) = Return (child_pid w)
         \<and> SpawnChild \<in> set (snd (startPocketbase w))"
proof -
  have nr: "fst (checkRunningPBInstances w False) = Return False"
    using assms probe_no_exit_flag [of w] by (auto simp: startPocketbase_running)
  with assms obtain v where v: "fst (startPBServer w) = Return v" "c = Cleanup v"
    by (auto simp: startPocketbase_launch split: outcome.splits)
  then have "v = child_pid w"
    by (simp add: startPBServer_pid)
  with v nr show ?thesis
    by (simp add: startPocketbase_launch startPBServer_spawns)
qed

lemma run_cleanup_closed:
  "run_cleanup w (Cleanup pid) = (Return (), snd (killExistingProcess w (Pid pid)))"
  by (simp add: kill_pid_closed io_simps)

text \<open>
  C8. A cleanup capability returned by \<open>startPocketbase\<close> holds the pid of the child
  that this call launched. Running it on any host state returns without throwing or
  exiting, and does what the Terminator does for that pid; running it twice in
  succession, on any two host states (the process running, or already gone), returns as
  well, with the effects of the two Terminator calls.
\<close>

theorem cleanup_idempotent:
  assumes "fst (startPocketbase w) = Return (Some c)"
  shows "c = Cleanup (child_pid w)
    \<and> run_cleanup w1 c = (Return (), snd (killExistingProcess w1 (Pid (child_pid w))))
    \<and> io_bind (run_cleanup w1 c) (\<lambda>_. run_cleanup w2 c) =
         (Return (), snd (killExistingProcess w1 (Pid (child_pid w)))
                     @ snd (killExistingProcess w2 (Pid (child_pid w))))"
  using startPocketbase_Some [OF assms]
  by (simp add: run_cleanup_closed io_bind_Return del: run_cleanup.simps)

lemma idle_world_probe: "checkRunningPBInstances idle_world False
    = (Return False, exec_trace (pgrep_cmd ''pocketbase serve'') Pipe False)"
  by (simp add: probe_posix_closed idle_world_def cmd_eval)

lemma idle_world_launch: "fst (startPBServer idle_world) = Return (Num 5000)"
  by (simp add: startPBServer_outcome idle_world_def on_stdout_closed started_trace_def
      startsWith_def)

lemma idle_world_start: "fst (startPocketbase idle_world) = Return (Some (Cleanup (Num 5000)))"
  by (simp add: startPocketbase_launch idle_world_probe idle_world_launch)


lemma idle_world_child: "child_pid idle_world = Num 5000"
  by (simp add: idle_world_def)

theorem cleanup_idempotent_witness:
  "fst (startPocketbase idle_world) = Return (Some (Cleanup (Num 5000)))
   \<and> fst (run_cleanup idle_world (Cleanup (Num 5000))) = Return ()
   \<and> fst (io_bind (run_cleanup (idle_world\<lparr>process_kill := \<lambda>pid sig. None\<rparr>) (Cleanup (Num 5000)))
             (\<lambda>_. run_cleanup idle_world (Cleanup (Num 5000)))) = Return ()"
proof -
  note a = cleanup_idempotent [OF idle_world_start, of idle_world idle_world]
  note b = cleanup_idempotent [OF idle_world_start,
      of "idle_world\<lparr>process_kill := \<lambda>pid sig. None\<rparr>" idle_world]
  have "fst (run_cleanup idle_world (Cleanup (Num 5000))) = Return ()"
    by (simp only: a [THEN conjunct2, THEN conjunct1] fst_conv)
  moreover have "fst (io_bind (run_cleanup (idle_world\<lparr>process_kill := \<lambda>pid sig. None\<rparr>) (Cleanup (Num 5000)))
             (\<lambda>_. run_cleanup idle_world (Cleanup (Num 5000)))) = Return ()"
    by (simp only: b [THEN conjunct2, THEN conjunct2] fst_conv)
  ultimately show ?thesis
    using idle_world_start by simp
qed

lemma getEnvVars_trace: "e \<in> set (snd (getEnvVars w vs)) \<Longrightarrow> \<not> lifecycle_effect e"
  by (auto simp: getEnvVars_def Let_def io_simps lifecycle_effect_def split: if_splits)

lemma getPBInstance_killPB:
  assumes "fst (getPBInstance w c) = Return r"
  shows "fst (if c then startPocketbase w else io_return None) = Return (killPB r)
    \<and> set (snd (if c then startPocketbase w else io_return None)) \<subseteq> set (snd (getPBInstance w c))"
proof (cases "if c then startPocketbase w else io_return None")
  case (Pair out t)
  show ?thesis
  proof (cases out)
    case (Return k)
    show ?thesis
    proof (cases "getEnvVars w [''PB_HOST'', ''PB_EMAIL'', ''PB_PASSWORD'']")
      case env: (Pair out2 t2)
      show ?thesis
        using assms Pair Return env
        by (cases out2; cases "auth w")
           (auto simp: getPBInstance_def io_simps split: if_splits)
    qed
  next
    case (Throw e)
    with assms Pair show ?thesis by (simp add: getPBInstance_def io_simps)
  next
    case (Exit n)
    with assms Pair show ?thesis by (simp add: getPBInstance_def io_simps)
  next
    case Hang
    with assms Pair show ?thesis by (simp add: getPBInstance_def io_simps)
  qed
qed

lemma getPBInstance_False_trace:
  "e \<in> set (snd (getPBInstance w False)) \<Longrightarrow> \<not> lifecycle_effect e"
proof (cases "getEnvVars w [''PB_HOST'', ''PB_EMAIL'', ''PB_PASSWORD'']")
  case (Pair out t)
  assume e: "e \<in> set (snd (getPBInstance w False))"
  have t: "e \<in> set t \<Longrightarrow> \<not> lifecycle_effect e"
    using getEnvVars_trace [of e w "[''PB_HOST'', ''PB_EMAIL'', ''PB_PASSWORD'']"] Pair by simp
  show ?thesis
    using e Pair t
    by (cases out; cases "auth w")
       (auto simp: getPBInstance_def io_simps lifecycle_effect_def split: if_splits)
qed

text \<open>
  C10. With \<open>createNewInstance = false\<close>, \<open>getPBInstance\<close> runs no command, sends no
  signal and spawns no child, and the \<open>killPB\<close> it returns is \<open>null\<close>. When the
  Existence Probe finds a running instance, \<open>startPocketbase\<close> returns \<open>null\<close>
  and spawns no child. Whenever \<open>getPBInstance\<close> returns a \<open>killPB\<close> that is not
  \<open>null\<close>, the call was made with \<open>createNewInstance = true\<close>, the probe found no
  instance, the call spawned a child, and \<open>killPB\<close> holds that child's pid.
\<close>

theorem killPB_only_from_launch:
  "(\<forall>r. fst (getPBInstance w False) = Return r \<longrightarrow> killPB r = None)
   \<and> (\<forall>e \<in> set (snd (getPBInstance w False)). \<not> lifecycle_effect e)
   \<and> (fst (checkRunningPBInstances w False) = Return True \<longrightarrow>
        fst (startPocketbase w) = Return None \<and> SpawnChild \<notin> set (snd (startPocketbase w)))
   \<and> (\<forall>r k. fst (getPBInstance w c) = Return r \<and> killPB r = Some k \<longrightarrow>
        c \<and> k = Cleanup (child_pid w)
        \<and> fst (checkRunningPBInstances w False) = Return False
        \<and> fst (startPBServer w) = Return (child_pid w)
        \<and> SpawnChild \<in> set (snd (getPBInstance w c)))"
proof (intro conjI allI impI ballI)
  fix r
  assume "fst (getPBInstance w False) = Return r"
  from getPBInstance_killPB [OF this] show "killPB r = None"
    by (simp add: io_return_def)
next
  fix e
  assume "e \<in> set (snd (getPBInstance w False))"
  then show "\<not> lifecycle_effect e"
    by (rule getPBInstance_False_trace)
next
  assume run: "fst (checkRunningPBInstances w False) = Return True"
  then show "fst (startPocketbase w) = Return None"
    by (simp add: startPocketbase_running)
  show "SpawnChild \<notin> set (snd (startPocketbase w))"
    using probe_never_spawns [of w False] by (simp add: startPocketbase_running [OF run])
next
  fix r k
  assume a: "fst (getPBInstance w c) = Return r \<and> killPB r = Some k"
  then have ret: "fst (getPBInstance w c) = Return r" and k: "killPB r = Some k"
    by simp_all
  from getPBInstance_killPB [OF ret] k have c: c
    by (cases c) (simp_all add: io_return_def)
  with getPBInstance_killPB [OF ret] k
  have st: "fst (startPocketbase w) = Return (Some k)"
    and sub: "set (snd (startPocketbase w)) \<subseteq> set (snd (getPBInstance w c))"
    by simp_all
  note s = startPocketbase_Some [OF st]
  show c by (rule c)
  show "k = Cleanup (child_pid w)" using s by simp
  show "fst (checkRunningPBInstances w False) = Return False" using s by simp
  show "fst (startPBServer w) = Return (child_pid w)" using s by simp
  show "SpawnChild \<in> set (snd (getPBInstance w c))" using s sub by auto
qed


lemma posix_world_instance:
  "fst (getPBInstance posix_world False) = Return \<lparr>pb = ''secret'', killPB = None\<rparr>"
  by (simp add: getPBInstance_def getEnvVars_def env_missing_def var_def posix_world_def io_simps)

lemma idle_world_instance:
  "fst (getPBInstance idle_world True) = Return \<lparr>pb = ''secret'', killPB = Some (Cleanup (Num 5000))\<rparr>"
proof (cases "startPocketbase idle_world")
  case (Pair out t)
  with idle_world_start have "startPocketbase idle_world = (Return (Some (Cleanup (Num 5000))), t)"
    by simp
  then show ?thesis
    by (simp add: getPBInstance_def getEnvVars_def env_missing_def var_def idle_world_def io_simps)
qed

theorem killPB_only_from_launch_witness:
  "fst (getPBInstance posix_world False) = Return \<lparr>pb = ''secret'', killPB = None\<rparr>
   \<and> fst (startPocketbase posix_world) = Return None
   \<and> fst (getPBInstance idle_world True) = Return \<lparr>pb = ''secret'', killPB = Some (Cleanup (Num 5000))\<rparr>
   \<and> SpawnChild \<in> set (snd (getPBInstance idle_world True))"
proof -
  have run: "fst (checkRunningPBInstances posix_world False) = Return True"
    by (simp add: posix_world_probe)
  have "fst (startPocketbase posix_world) = Return None"
    using killPB_only_from_launch [of posix_world True] run by blast
  moreover have "SpawnChild \<in> set (snd (getPBInstance idle_world True))"
    using killPB_only_from_launch [of idle_world True] idle_world_instance
    by (metis pb_instance.select_convs(2))
  ultimately show ?thesis
    using posix_world_instance idle_world_instance by simp
qed

end
